theory Spec2Isabelle
  imports Complex_Main "HOL-Library.Word"
begin

section \<open>JavaScript values\<close>

text \<open>
  A JavaScript string is a sequence of UTF-16 code units; \<open>.length\<close>, \<open>slice\<close>,
  \<open>includes\<close> and a regular expression without the \<open>u\<close> flag all work on code units.
  The literals of the plugin are ASCII and are written through \<open>js\<close>.
\<close>

type_synonym jsstring = "16 word list"

definition js :: "string \<Rightarrow> jsstring" where
  "js s = map (\<lambda>c. word_of_nat (of_char c)) s"

text \<open>\<open>s.startsWith(p)\<close>, and \<open>s.includes(p)\<close> as a scan over the suffixes of \<open>s\<close>.\<close>

definition starts_with :: "jsstring \<Rightarrow> jsstring \<Rightarrow> bool" where
  "starts_with p s = (take (length p) s = p)"

fun str_includes :: "jsstring \<Rightarrow> jsstring \<Rightarrow> bool" where
  "str_includes p [] = (p = [])"
| "str_includes p (c # cs) = (starts_with p (c # cs) \<or> str_includes p cs)"

text \<open>
  A JavaScript number, as far as the plugin looks at one: its type tag, whether it is
  zero or NaN (truthiness) and its integer part (\<open>slice\<close>). A finite double is a rational.
\<close>

datatype number = NaN | PosInf | NegInf | Fin rat


datatype jsval =
    Undefined
  | Null
  | JBool bool
  | JNum number
  | JStr jsstring
  | JArr "jsval list"
  | JObj "(jsstring \<times> jsval) list"

text \<open>ToBoolean: \<open>undefined\<close>, \<open>null\<close>, \<open>false\<close>, \<open>0\<close>, \<open>NaN\<close> and \<open>""\<close> are falsy.\<close>

fun truthy :: "jsval \<Rightarrow> bool" where
  "truthy Undefined = False"
| "truthy Null = False"
| "truthy (JBool b) = b"
| "truthy (JNum NaN) = False"
| "truthy (JNum (Fin q)) = (q \<noteq> 0)"
| "truthy (JNum _) = True"
| "truthy (JStr s) = (s \<noteq> [])"
| "truthy (JArr _) = True"
| "truthy (JObj _) = True"

text \<open>
  Property read \<open>v.k\<close> for a key that is none of the built-in properties of strings and
  arrays (the plugin reads \<open>role\<close>, \<open>content\<close>, \<open>text\<close> and the configuration keys):
  an object gives the value stored under the key, every other non-nullish value gives
  \<open>undefined\<close>. Reading a property of \<open>undefined\<close> or \<open>null\<close> throws; the plugin
  guards every such read, so \<open>get_prop\<close> is only applied to non-nullish values.
\<close>

fun get_prop :: "jsval \<Rightarrow> jsstring \<Rightarrow> jsval" where
  "get_prop (JObj kvs) k = (case map_of kvs k of None \<Rightarrow> Undefined | Some v \<Rightarrow> v)"
| "get_prop _ k = Undefined"

datatype js_type = TUndefined | TObject | TBoolean | TNumber | TString

fun typeof :: "jsval \<Rightarrow> js_type" where
  "typeof Undefined = TUndefined"
| "typeof Null = TObject"
| "typeof (JBool _) = TBoolean"
| "typeof (JNum _) = TNumber"
| "typeof (JStr _) = TString"
| "typeof (JArr _) = TObject"
| "typeof (JObj _) = TObject"

text \<open>Decimal digits of a natural number, for template literals.\<close>

fun show_nat :: "nat \<Rightarrow> jsstring" where
  "show_nat n =
     (if n < 10 then [word_of_nat (48 + n)]
      else show_nat (n div 10) @ [word_of_nat (48 + n mod 10)])"

definition show_int :: "int \<Rightarrow> jsstring" where
  "show_int i = (if i < 0 then js ''-'' @ show_nat (nat (- i)) else show_nat (nat i))"

text \<open>\<open>xs.join(sep)\<close>.\<close>

fun join :: "jsstring \<Rightarrow> jsstring list \<Rightarrow> jsstring" where
  "join sep [] = []"
| "join sep [x] = x"
| "join sep (x # y # ys) = x @ sep @ join sep (y # ys)"

section \<open>Prompt injection protection\<close>

definition PROMPT_ESCAPE_MAP :: "(jsstring \<times> jsstring) list" where
  "PROMPT_ESCAPE_MAP =
     [(js ''&'', js ''&amp;''),
      (js ''<'', js ''&lt;''),
      (js ''>'', js ''&gt;''),
      ([0x22], js ''&quot;''),
      ([0x27], js ''&#39;'')]"

text \<open>The character class \<open>[&<>"']\<close>.\<close>

definition escape_class :: "16 word \<Rightarrow> bool" where
  "escape_class c = (c = 0x26 \<or> c = 0x3C \<or> c = 0x3E \<or> c = 0x22 \<or> c = 0x27)"

text \<open>The replacer \<open>(c) => PROMPT_ESCAPE_MAP[c] ?? c\<close>, applied to each match.\<close>

definition escape_match :: "16 word \<Rightarrow> jsstring" where
  "escape_match c = (case map_of PROMPT_ESCAPE_MAP [c] of None \<Rightarrow> [c] | Some e \<Rightarrow> e)"

definition escapeForPrompt :: "jsstring \<Rightarrow> jsstring" where
  "escapeForPrompt text = concat (map (\<lambda>c. if escape_class c then escape_match c else [c]) text)"

text \<open>
  The decoder the specification speaks of: reading left to right, each of the five
  entities is replaced by its character, every other code unit is kept.
\<close>

fun decode_entities :: "jsstring \<Rightarrow> jsstring" where
  "decode_entities [] = []"
| "decode_entities (c # cs) =
     (if starts_with (js ''&amp;'') (c # cs) then 0x26 # decode_entities (drop 4 cs)
      else if starts_with (js ''&lt;'') (c # cs) then 0x3C # decode_entities (drop 3 cs)
      else if starts_with (js ''&gt;'') (c # cs) then 0x3E # decode_entities (drop 3 cs)
      else if starts_with (js ''&quot;'') (c # cs) then 0x22 # decode_entities (drop 5 cs)
      else if starts_with (js ''&#39;'') (c # cs) then 0x27 # decode_entities (drop 4 cs)
      else c # decode_entities cs)"

text \<open>
  A text is well escaped when none of \<open>< > " '\<close> occurs in it and every \<open>&\<close> in it
  is the first code unit of one of the five entities.
\<close>

definition starts_entity :: "jsstring \<Rightarrow> bool" where
  "starts_entity s =
     (starts_with (js ''&amp;'') s \<or> starts_with (js ''&lt;'') s \<or> starts_with (js ''&gt;'') s \<or>
      starts_with (js ''&quot;'') s \<or> starts_with (js ''&#39;'') s)"

fun well_escaped :: "jsstring \<Rightarrow> bool" where
  "well_escaped [] = True"
| "well_escaped (c # cs) =
     ((if c = 0x26 then starts_entity (c # cs)
       else c \<noteq> 0x3C \<and> c \<noteq> 0x3E \<and> c \<noteq> 0x22 \<and> c \<noteq> 0x27) \<and>
      well_escaped cs)"

section \<open>Types of the plugin\<close>

text \<open>
  \<open>PluginConfig\<close>. The three string fields are assigned by unchecked casts in
  \<open>parseConfig\<close>, so the record is polymorphic in what they hold: \<open>parseConfig\<close>
  returns a \<open>jsval PluginConfig\<close>, the client and the handlers are written for the
  well-typed \<open>jsstring PluginConfig\<close>.
\<close>

record 's PluginConfig =
  baseUrl :: 's
  bankId :: 's
  namespace :: 's
  autoRecall :: bool
  autoCapture :: bool
  recallLimit :: number
  captureMaxMessages :: number

text \<open>An optional, nullable field of a JSON object: absent, \<open>null\<close> or a value.\<close>

datatype 'a nullable = Absent | IsNull | Val 'a

datatype memory_type = World | Experience

text \<open>\<open>HindsightMemory\<close>; the fields carry the prefix \<open>m_\<close>.\<close>

record HindsightMemory =
  m_id :: jsstring
  m_text :: jsstring
  m_type :: memory_type
  m_entities :: "jsstring list nullable"
  m_context :: "jsstring nullable"
  m_occurred_start :: "jsstring nullable"
  m_occurred_end :: "jsstring nullable"
  m_mentioned_at :: "jsstring nullable"
  m_document_id :: "jsstring nullable"
  m_score :: "number option"

text \<open>
  \<open>RecallResult\<close>: the handlers read \<open>result.results?.length\<close>, so a missing
  \<open>results\<close> is part of the model (\<open>None\<close>).
\<close>

record RecallResult =
  results :: "HindsightMemory list option"

record RetainResult =
  retain_success :: bool
  retain_bank_id :: jsstring
  items_count :: number

record BankInfo =
  bank_id :: jsstring
  bank_name :: jsstring

text \<open>The answer of \<open>listMemories\<close>: \<open>{ items }\<close>, read as \<open>result.items ?? []\<close>.\<close>

record ListResult =
  list_items :: "HindsightMemory list option"

text \<open>The items sent to \<open>retain\<close>, \<open>{ content, context }\<close>.\<close>

record CaptureItem =
  item_content :: jsstring
  item_context :: "jsstring option"

section \<open>Errors, the remote service and the state of the plugin\<close>

text \<open>A thrown \<open>Error\<close> with its name and message; \<open>String(err)\<close>.\<close>

datatype js_error = JsError (err_name: jsstring) (err_message: jsstring)

definition error_string :: "js_error \<Rightarrow> jsstring" where
  "error_string e =
     (if err_name e = [] then err_message e
      else if err_message e = [] then err_name e
      else err_name e @ js '': '' @ err_message e)"

text \<open>
  What one call of \<open>fetch\<close> does: the promise rejects (a failure of the network), or it
  resolves to a response with a status, whose \<open>text()\<close> and \<open>json()\<close> each give a
  value or reject. The value of \<open>json()\<close> is taken at the type the call site asserts
  (\<open>request<T>\<close> returns \<open>res.json() as Promise<T>\<close>).
\<close>

datatype 'a fetch_outcome =
    Rejects js_error
  | Responds nat "js_error + jsstring" "js_error + 'a"

text \<open>
  The remote service is outside the plugin. One run of the plugin sees one sequence of
  outcomes of its calls of \<open>fetch\<close>; the \<open>n\<close>-th call (counted from 0 over the life of
  the plugin) made at an endpoint gets the outcome the field of that endpoint gives at
  \<open>n\<close>. A theorem for every \<open>remote\<close> holds however the service answers.
  \<open>number_toString\<close> is the runtime's \<open>Number::toString\<close> on the finite numbers
  that are not integers of magnitude below \<open>2^53\<close> (those print with all their
  digits; a larger integer prints the shortest digits that identify the double).
\<close>

record remote =
  ensure_reply :: "nat \<Rightarrow> BankInfo fetch_outcome"
  retain_reply :: "nat \<Rightarrow> RetainResult fetch_outcome"
  recall_reply :: "nat \<Rightarrow> RecallResult fetch_outcome"
  list_reply :: "nat \<Rightarrow> ListResult fetch_outcome"
  get_reply :: "nat \<Rightarrow> HindsightMemory fetch_outcome"
  delete_reply :: "nat \<Rightarrow> jsval fetch_outcome"
  health_reply :: "nat \<Rightarrow> unit fetch_outcome"
  number_toString :: "rat \<Rightarrow> jsstring"

text \<open>One call of \<open>fetch\<close> as the plugin issues it; \<open>req_body\<close> is the value given to
  \<open>JSON.stringify\<close>, when the request has a body.\<close>

record fetch_call =
  req_method :: jsstring
  req_url :: jsstring
  req_body :: "jsval option"

datatype log_level = Info | Warn

text \<open>
  The state: the flag \<open>bankReady\<close> of \<open>register\<close>, and what the plugin has done so
  far: the calls of \<open>fetch\<close> in order and the lines given to \<open>api.logger\<close>.
  The command line of the plugin and the start and stop of its service are not events
  of the model.
\<close>

record state =
  bankReady :: bool
  trace :: "fetch_call list"
  logged :: "(log_level \<times> jsstring) list"


text \<open>
  An asynchronous computation that may throw: from a state to a thrown error or a value,
  and the state after it. \<open>and_then\<close> is sequencing with \<open>await\<close>, \<open>try_catch\<close>
  is \<open>try { ... } catch (err) { ... }\<close>.
\<close>

type_synonym 'a action = "state \<Rightarrow> (js_error + 'a) \<times> state"

definition return_value :: "'a \<Rightarrow> 'a action" where
  "return_value x st = (Inr x, st)"

definition and_then :: "'a action \<Rightarrow> ('a \<Rightarrow> 'b action) \<Rightarrow> 'b action" where
  "and_then m f st =
     (case m st of (Inl e, st') \<Rightarrow> (Inl e, st') | (Inr x, st') \<Rightarrow> f x st')"

definition try_catch :: "'a action \<Rightarrow> (js_error \<Rightarrow> 'a action) \<Rightarrow> 'a action" where
  "try_catch m h st =
     (case m st of (Inl e, st') \<Rightarrow> h e st' | (Inr x, st') \<Rightarrow> (Inr x, st'))"

definition log_line :: "log_level \<Rightarrow> jsstring \<Rightarrow> state \<Rightarrow> state" where
  "log_line lvl msg st = st\<lparr>logged := logged st @ [(lvl, msg)]\<rparr>"

section \<open>Hindsight HTTP client\<close>

record HindsightClient =
  client_baseUrl :: jsstring
  client_namespace :: jsstring

definition url :: "HindsightClient \<Rightarrow> jsstring \<Rightarrow> jsstring" where
  "url c path = client_baseUrl c @ js ''/v1/'' @ client_namespace c @ path"

text \<open>\<open>res.ok\<close>: the status is in the range 200 to 299.\<close>

definition ok :: "nat \<Rightarrow> bool" where
  "ok status = (200 \<le> status \<and> status \<le> 299)"

text \<open>
  \<open>request\<close>, in three parts: the call of \<open>fetch\<close> it issues, what it makes of the
  outcome (\<open>settle\<close>: it throws what \<open>fetch\<close> threw, throws the uniform error on a
  status that is not ok, and otherwise gives what \<open>res.json()\<close> gives), and both
  together on the state.
\<close>

definition issued :: "HindsightClient \<Rightarrow> jsstring \<Rightarrow> jsstring \<Rightarrow> jsval option \<Rightarrow> fetch_call" where
  "issued c method path body =
     \<lparr>req_method = method, req_url = url c path,
      req_body = (case body of None \<Rightarrow> None | Some b \<Rightarrow> if truthy b then Some b else None)\<rparr>"

definition settle :: "jsstring \<Rightarrow> jsstring \<Rightarrow> 'a fetch_outcome \<Rightarrow> js_error + 'a" where
  "settle method path outcome =
     (case outcome of
        Rejects e \<Rightarrow> Inl e
      | Responds status txt json \<Rightarrow>
          if \<not> ok status then
            Inl (JsError (js ''Error'')
              (js ''Hindsight '' @ method @ js '' '' @ path @ js '': '' @ show_nat status @
               js '' '' @ take 200 (case txt of Inl _ \<Rightarrow> [] | Inr t \<Rightarrow> t)))
          else json)"

definition request ::
  "HindsightClient \<Rightarrow> (nat \<Rightarrow> 'a fetch_outcome) \<Rightarrow> jsstring \<Rightarrow> jsstring \<Rightarrow> jsval option \<Rightarrow>
   'a action" where
  "request c reply method path body st =
     (settle method path (reply (length (trace st))),
      st\<lparr>trace := trace st @ [issued c method path body]\<rparr>)"

definition bank_path :: "jsstring \<Rightarrow> jsstring" where
  "bank_path bank = js ''/banks/'' @ bank"

text \<open>The object \<open>{ mission }\<close>.\<close>

definition mission_body :: "jsstring option \<Rightarrow> jsval" where
  "mission_body mission =
     JObj [(js ''mission'', case mission of None \<Rightarrow> Undefined | Some m \<Rightarrow> JStr m)]"

definition client_ensureBank ::
  "HindsightClient \<Rightarrow> remote \<Rightarrow> jsstring \<Rightarrow> jsstring option \<Rightarrow> BankInfo action" where
  "client_ensureBank c env bank mission =
     try_catch
       (request c (ensure_reply env) (js ''PUT'') (bank_path bank) (Some (mission_body mission)))
       (\<lambda>_. request c (ensure_reply env) (js ''PUT'') (bank_path bank) (Some (JObj [])))"

definition item_json :: "CaptureItem \<Rightarrow> jsval" where
  "item_json i =
     JObj [(js ''content'', JStr (item_content i)),
           (js ''context'', case item_context i of None \<Rightarrow> Undefined | Some x \<Rightarrow> JStr x)]"

definition retain :: "HindsightClient \<Rightarrow> remote \<Rightarrow> jsstring \<Rightarrow> CaptureItem list \<Rightarrow> RetainResult action" where
  "retain c env bank items =
     request c (retain_reply env) (js ''POST'') (bank_path bank @ js ''/memories'')
       (Some (JObj [(js ''items'', JArr (map item_json items))]))"

definition recall :: "HindsightClient \<Rightarrow> remote \<Rightarrow> jsstring \<Rightarrow> jsstring \<Rightarrow> number \<Rightarrow> RecallResult action" where
  "recall c env bank query limit =
     request c (recall_reply env) (js ''POST'') (bank_path bank @ js ''/memories/recall'')
       (Some (JObj [(js ''query'', JStr query), (js ''limit'', JNum limit)]))"

text \<open>A number inside a template literal.\<close>

definition show_number :: "remote \<Rightarrow> number \<Rightarrow> jsstring" where
  "show_number env n =
     (case n of
        NaN \<Rightarrow> js ''NaN''
      | PosInf \<Rightarrow> js ''Infinity''
      | NegInf \<Rightarrow> js ''-Infinity''
      | Fin q \<Rightarrow>
          if q = of_int \<lfloor>q\<rfloor> \<and> \<bar>q\<bar> < 2 ^ 53 then show_int \<lfloor>q\<rfloor> else number_toString env q)"

definition listMemories :: "HindsightClient \<Rightarrow> remote \<Rightarrow> jsstring \<Rightarrow> number \<Rightarrow> ListResult action" where
  "listMemories c env bank limit =
     request c (list_reply env) (js ''GET'')
       (bank_path bank @ js ''/memories/list?limit='' @ show_number env limit) None"

definition getMemory :: "HindsightClient \<Rightarrow> remote \<Rightarrow> jsstring \<Rightarrow> jsstring \<Rightarrow> HindsightMemory action" where
  "getMemory c env bank memoryId =
     request c (get_reply env) (js ''GET'') (bank_path bank @ js ''/memories/'' @ memoryId) None"

definition deleteMemory :: "HindsightClient \<Rightarrow> remote \<Rightarrow> jsstring \<Rightarrow> jsstring \<Rightarrow> unit action" where
  "deleteMemory c env bank memoryId =
     and_then
       (request c (delete_reply env) (js ''DELETE'') (bank_path bank @ js ''/memories/'' @ memoryId)
          None)
       (\<lambda>_. return_value ())"

text \<open>
  \<open>health\<close> calls \<open>fetch\<close> itself, not \<open>request\<close>: the response is not looked at.
\<close>

definition health :: "HindsightClient \<Rightarrow> remote \<Rightarrow> bool action" where
  "health c env st =
     (let st' = st\<lparr>trace := trace st @
                  [\<lparr>req_method = js ''GET'', req_url = client_baseUrl c @ js ''/health'',
                    req_body = None\<rparr>]\<rparr>
      in case health_reply env (length (trace st)) of
           Rejects _ \<Rightarrow> (Inr False, st')
         | Responds _ _ _ \<Rightarrow> (Inr True, st'))"

section \<open>The context block\<close>

definition newline :: jsstring where
  "newline = [0x0A]"

definition type_string :: "memory_type \<Rightarrow> jsstring" where
  "type_string t = (case t of World \<Rightarrow> js ''world'' | Experience \<Rightarrow> js ''experience'')"

definition OPEN_TAG :: jsstring where
  "OPEN_TAG = js ''<relevant-memories>''"

definition CLOSE_TAG :: jsstring where
  "CLOSE_TAG = js ''</relevant-memories>''"


text \<open>\<open>xs.map((x, i) => f(i + 1, x))\<close>: the elements with their positions from 1.\<close>

definition numbered :: "(nat \<Rightarrow> 'a \<Rightarrow> 'b) \<Rightarrow> 'a list \<Rightarrow> 'b list" where
  "numbered f xs = map (\<lambda>(i, x). f (i + 1) x) (enumerate 0 xs)"


section \<open>Config parser\<close>

text \<open>
  \<open>parseConfig\<close>: \<open>raw ?? {}\<close>, then one property read for each field. No step of it
  can throw: the reads are on a value that is neither \<open>undefined\<close> nor \<open>null\<close>.
\<close>

definition parseConfig :: "jsval \<Rightarrow> jsval PluginConfig" where
  "parseConfig raw =
     (let cfg = (if raw = Undefined \<or> raw = Null then JObj [] else raw) in
      \<lparr>baseUrl = (if truthy (get_prop cfg (js ''baseUrl'')) then get_prop cfg (js ''baseUrl'')
                  else JStr (js ''http://127.0.0.1:8888'')),
       bankId = (if truthy (get_prop cfg (js ''bankId'')) then get_prop cfg (js ''bankId'')
                 else JStr (js ''openclaw'')),
       namespace = (if truthy (get_prop cfg (js ''namespace'')) then get_prop cfg (js ''namespace'')
                    else JStr (js ''default'')),
       autoRecall = (get_prop cfg (js ''autoRecall'') \<noteq> JBool False),
       autoCapture = (get_prop cfg (js ''autoCapture'') \<noteq> JBool False),
       recallLimit = (case get_prop cfg (js ''recallLimit'') of JNum n \<Rightarrow> n | _ \<Rightarrow> Fin 5),
       captureMaxMessages =
         (case get_prop cfg (js ''captureMaxMessages'') of JNum n \<Rightarrow> n | _ \<Rightarrow> Fin 10)\<rparr>)"

text \<open>What the specification asks of \<open>recallLimit\<close> and \<open>captureMaxMessages\<close>.\<close>

definition positive_integer :: "number \<Rightarrow> bool" where
  "positive_integer n = (case n of Fin q \<Rightarrow> 0 < q \<and> q = of_int \<lfloor>q\<rfloor> | _ \<Rightarrow> False)"

section \<open>The plugin: bank lifecycle\<close>

text \<open>
  The state in which \<open>register\<close> leaves the plugin, before any event: the flag is
  not set, no call has been made, and the line that reports the registration has been
  given to the logger.
\<close>

definition show_bool :: "bool \<Rightarrow> jsstring" where
  "show_bool b = (if b then js ''true'' else js ''false'')"

definition register :: "jsstring PluginConfig \<Rightarrow> state" where
  "register cfg =
     \<lparr>bankReady = False, trace = [],
      logged =
        [(Info, js ''memory-hindsight: registered (url: '' @ baseUrl cfg @ js '', bank: '' @
                bankId cfg @ js '', autoRecall: '' @ show_bool (autoRecall cfg) @
                js '', autoCapture: '' @ show_bool (autoCapture cfg) @ js '')'')]\<rparr>"

definition client_of :: "jsstring PluginConfig \<Rightarrow> HindsightClient" where
  "client_of cfg = \<lparr>client_baseUrl = baseUrl cfg, client_namespace = namespace cfg\<rparr>"

definition MISSION :: jsstring where
  "MISSION = js ''Personal AI assistant memory bank.''"

text \<open>The closure \<open>ensureBank\<close> of \<open>register\<close>. It catches every error, so it is a
  function on states.\<close>

definition ensureBank :: "remote \<Rightarrow> jsstring PluginConfig \<Rightarrow> state \<Rightarrow> state" where
  "ensureBank env cfg st =
     (if bankReady st then st
      else case client_ensureBank (client_of cfg) env (bankId cfg) (Some MISSION) st of
             (Inr _, st') \<Rightarrow> st'\<lparr>bankReady := True\<rparr>
           | (Inl err, st') \<Rightarrow>
               log_line Warn (js ''memory-hindsight: failed to ensure bank: '' @ error_string err) st')"

section \<open>The plugin: tools\<close>

text \<open>A tool result: the text of its one content block, and \<open>details\<close>.\<close>

record tool_result =
  result_text :: jsstring
  details :: jsval

definition nat_json :: "nat \<Rightarrow> jsval" where
  "nat_json n = JNum (Fin (of_nat n))"

definition nullable_json :: "('a \<Rightarrow> jsval) \<Rightarrow> 'a nullable \<Rightarrow> jsval" where
  "nullable_json f x = (case x of Absent \<Rightarrow> Undefined | IsNull \<Rightarrow> Null | Val v \<Rightarrow> f v)"

definition strings_json :: "jsstring list \<Rightarrow> jsval" where
  "strings_json xs = JArr (map JStr xs)"

text \<open>The result of a failed tool: \<open>`Memory ... failed: ${String(err)}`\<close>.\<close>

definition failed_result :: "jsstring \<Rightarrow> js_error \<Rightarrow> tool_result" where
  "failed_result what err =
     \<lparr>result_text = what @ error_string err,
      details = JObj [(js ''error'', JStr (error_string err))]\<rparr>"

definition no_results :: "HindsightMemory list option \<Rightarrow> bool" where
  "no_results rs = (case rs of None \<Rightarrow> True | Some xs \<Rightarrow> xs = [])"

definition memory_search ::
  "remote \<Rightarrow> jsstring PluginConfig \<Rightarrow> jsstring \<Rightarrow> number option \<Rightarrow> tool_result action" where
  "memory_search env cfg query limit st =
     try_catch
       (and_then
          (recall (client_of cfg) env (bankId cfg) query
             (case limit of None \<Rightarrow> recallLimit cfg | Some l \<Rightarrow> l))
          (\<lambda>result.
             if no_results (results result) then
               return_value
                 \<lparr>result_text = js ''No relevant memories found.'',
                  details = JObj [(js ''count'', nat_json 0)]\<rparr>
             else
               (let rs = the (results result);
                    text = join newline
                      (numbered (\<lambda>i r. show_nat i @ js ''. ['' @ type_string (m_type r) @ js ''] '' @
                          m_text r @ js '' (id: '' @ take 8 (m_id r) @ js '')'') rs)
                in return_value
                     \<lparr>result_text = js ''Found '' @ show_nat (length rs) @ js '' memories:'' @
                        newline @ newline @ text,
                      details = JObj
                        [(js ''count'', nat_json (length rs)),
                         (js ''memories'', JArr (map (\<lambda>r. JObj
                            [(js ''id'', JStr (m_id r)),
                             (js ''text'', JStr (m_text r)),
                             (js ''type'', JStr (type_string (m_type r))),
                             (js ''entities'', nullable_json strings_json (m_entities r))]) rs))]\<rparr>)))
       (\<lambda>err. return_value (failed_result (js ''Memory search failed: '') err))
       (ensureBank env cfg st)"

definition memory_store ::
  "remote \<Rightarrow> jsstring PluginConfig \<Rightarrow> jsstring \<Rightarrow> jsstring option \<Rightarrow> tool_result action" where
  "memory_store env cfg text ctx st =
     try_catch
       (and_then
          (retain (client_of cfg) env (bankId cfg) [\<lparr>item_content = text, item_context = ctx\<rparr>])
          (\<lambda>result.
             return_value
               \<lparr>result_text = js ''Stored '' @ show_number env (items_count result) @
                  js '' item(s) in memory.'',
                details = JObj [(js ''success'', JBool True),
                                (js ''items_count'', JNum (items_count result))]\<rparr>))
       (\<lambda>err. return_value (failed_result (js ''Memory store failed: '') err))
       (ensureBank env cfg st)"

text \<open>A memory as the object the service sent: absent fields are absent.\<close>

definition optional_prop :: "jsstring \<Rightarrow> ('a \<Rightarrow> jsval) \<Rightarrow> 'a nullable \<Rightarrow> (jsstring \<times> jsval) list" where
  "optional_prop k f x = (case x of Absent \<Rightarrow> [] | IsNull \<Rightarrow> [(k, Null)] | Val v \<Rightarrow> [(k, f v)])"

definition memory_json :: "HindsightMemory \<Rightarrow> jsval" where
  "memory_json m =
     JObj ([(js ''id'', JStr (m_id m)),
            (js ''text'', JStr (m_text m)),
            (js ''type'', JStr (type_string (m_type m)))] @
           optional_prop (js ''entities'') strings_json (m_entities m) @
           optional_prop (js ''context'') JStr (m_context m) @
           optional_prop (js ''occurred_start'') JStr (m_occurred_start m) @
           optional_prop (js ''occurred_end'') JStr (m_occurred_end m) @
           optional_prop (js ''mentioned_at'') JStr (m_mentioned_at m) @
           optional_prop (js ''document_id'') JStr (m_document_id m) @
           (case m_score m of None \<Rightarrow> [] | Some x \<Rightarrow> [(js ''score'', JNum x)]))"

definition memory_get ::
  "remote \<Rightarrow> jsstring PluginConfig \<Rightarrow> jsstring \<Rightarrow> tool_result action" where
  "memory_get env cfg memoryId st =
     try_catch
       (and_then
          (getMemory (client_of cfg) env (bankId cfg) memoryId)
          (\<lambda>memory.
             return_value
               \<lparr>result_text = js ''Memory '' @ m_id memory @ js '':'' @ newline @
                  js ''['' @ type_string (m_type memory) @ js ''] '' @ m_text memory @ newline @
                  js ''Entities: '' @
                  (case m_entities memory of Val es \<Rightarrow> join (js '', '') es | _ \<Rightarrow> js ''none'') @
                  newline @ js ''Stored: '' @
                  (case m_mentioned_at memory of Val t \<Rightarrow> t | _ \<Rightarrow> js ''unknown''),
                details = JObj [(js ''memory'', memory_json memory)]\<rparr>))
       (\<lambda>err. return_value (failed_result (js ''Memory get failed: '') err))
       (ensureBank env cfg st)"

definition memory_list ::
  "remote \<Rightarrow> jsstring PluginConfig \<Rightarrow> number option \<Rightarrow> tool_result action" where
  "memory_list env cfg limit st =
     try_catch
       (and_then
          (listMemories (client_of cfg) env (bankId cfg)
             (case limit of None \<Rightarrow> Fin 20 | Some l \<Rightarrow> l))
          (\<lambda>result.
             (let items = (case list_items result of None \<Rightarrow> [] | Some xs \<Rightarrow> xs) in
              if items = [] then
                return_value
                  \<lparr>result_text = js ''No memories stored yet.'',
                   details = JObj [(js ''count'', nat_json 0)]\<rparr>
              else
                (let text = join newline
                       (numbered (\<lambda>i m. show_nat i @ js ''. ['' @ type_string (m_type m) @ js ''] '' @
                          take 100 (m_text m) @ js '' (id: '' @ take 8 (m_id m) @ js '')'') items)
                 in return_value
                      \<lparr>result_text = show_nat (length items) @ js '' memories:'' @ newline @
                         newline @ text,
                       details = JObj [(js ''count'', nat_json (length items))]\<rparr>))))
       (\<lambda>err. return_value (failed_result (js ''Memory list failed: '') err))
       (ensureBank env cfg st)"

text \<open>
  \<open>memory_forget\<close>: \<open>if (memoryId)\<close> and \<open>if (query)\<close> test for a string that is
  present and not empty.
\<close>

definition given :: "jsstring option \<Rightarrow> bool" where
  "given x = (case x of None \<Rightarrow> False | Some s \<Rightarrow> s \<noteq> [])"

definition memory_forget ::
  "remote \<Rightarrow> jsstring PluginConfig \<Rightarrow> jsstring option \<Rightarrow> jsstring option \<Rightarrow> tool_result action" where
  "memory_forget env cfg memoryId query st =
     try_catch
       (if given memoryId then
          and_then
            (deleteMemory (client_of cfg) env (bankId cfg) (the memoryId))
            (\<lambda>_. return_value
               \<lparr>result_text = js ''Memory '' @ the memoryId @ js '' forgotten.'',
                details = JObj [(js ''action'', JStr (js ''deleted'')),
                                (js ''id'', JStr (the memoryId))]\<rparr>)
        else if given query then
          and_then
            (recall (client_of cfg) env (bankId cfg) (the query) (Fin 5))
            (\<lambda>result.
               if no_results (results result) then
                 return_value
                   \<lparr>result_text = js ''No matching memories found.'',
                    details = JObj [(js ''found'', nat_json 0)]\<rparr>
               else
                 (let rs = the (results result) in
                  if length rs = 1 then
                    and_then
                      (deleteMemory (client_of cfg) env (bankId cfg) (m_id (hd rs)))
                      (\<lambda>_. return_value
                         \<lparr>result_text = js ''Forgotten: '' @ [0x22] @ m_text (hd rs) @ [0x22],
                          details = JObj [(js ''action'', JStr (js ''deleted'')),
                                          (js ''id'', JStr (m_id (hd rs)))]\<rparr>)
                  else
                    return_value
                      \<lparr>result_text = js ''Found '' @ show_nat (length rs) @
                         js '' candidates. Specify memoryId:'' @ newline @
                         join newline
                           (map (\<lambda>r. js ''- ['' @ take 8 (m_id r) @ js ''] '' @ take 80 (m_text r)) rs),
                       details = JObj
                         [(js ''action'', JStr (js ''candidates'')),
                          (js ''candidates'', JArr (map (\<lambda>r. JObj
                             [(js ''id'', JStr (m_id r)), (js ''text'', JStr (m_text r))]) rs))]\<rparr>))
        else
          return_value
            \<lparr>result_text = js ''Provide a memoryId or query.'',
             details = JObj [(js ''error'', JStr (js ''missing_param''))]\<rparr>)
       (\<lambda>err. return_value (failed_result (js ''Memory forget failed: '') err))
       (ensureBank env cfg st)"

section \<open>The plugin: lifecycle hooks\<close>



text \<open>
  White space as \<open>\s\<close> and \<open>trim\<close> see it: tab, line feed, vertical tab, form feed,
  carriage return, space, no-break space, U+1680, U+2000 to U+200A, the line and
  paragraph separators, U+202F, U+205F, U+3000 and the byte order mark.
\<close>

definition is_space :: "16 word \<Rightarrow> bool" where
  "is_space c =
     (c = 0x09 \<or> c = 0x0A \<or> c = 0x0B \<or> c = 0x0C \<or> c = 0x0D \<or> c = 0x20 \<or> c = 0xA0 \<or>
      c = 0x1680 \<or> (0x2000 \<le> c \<and> c \<le> 0x200A) \<or> c = 0x2028 \<or> c = 0x2029 \<or>
      c = 0x202F \<or> c = 0x205F \<or> c = 0x3000 \<or> c = 0xFEFF)"

definition trim :: "jsstring \<Rightarrow> jsstring" where
  "trim s = rev (dropWhile is_space (rev (dropWhile is_space s)))"

text \<open>
  The replacement
  \<open>replace(/<relevant-memories>[\s\S]*?<\/relevant-memories>\s*/g, "")\<close>.
  \<open>close_end s\<close> is where the first closing tag in \<open>s\<close> ends (the lazy
  \<open>[\s\S]*?\<close> stops at the first one); \<open>match_length s\<close> is the length of the match
  that starts at the head of \<open>s\<close>, if there is one: the opening tag, the text up to the
  end of the first closing tag after it, and all the white space that follows.
  \<open>replace_from k s\<close> walks \<open>s\<close> with \<open>k\<close> code units of a match still to drop;
  outside a match it drops the match that starts here or keeps the code unit.
\<close>

fun close_end :: "jsstring \<Rightarrow> nat option" where
  "close_end [] = None"
| "close_end (c # cs) =
     (if starts_with CLOSE_TAG (c # cs) then Some (length CLOSE_TAG)
      else map_option Suc (close_end cs))"

definition match_length :: "jsstring \<Rightarrow> nat option" where
  "match_length s =
     (if starts_with OPEN_TAG s then
        (case close_end (drop (length OPEN_TAG) s) of
           None \<Rightarrow> None
         | Some k \<Rightarrow>
             Some (length OPEN_TAG + k +
                   length (takeWhile is_space (drop (length OPEN_TAG + k) s))))
      else None)"

fun replace_from :: "nat \<Rightarrow> jsstring \<Rightarrow> jsstring" where
  "replace_from k [] = []"
| "replace_from (Suc k) (c # cs) = replace_from k cs"
| "replace_from 0 (c # cs) =
     (case match_length (c # cs) of
        Some n \<Rightarrow> replace_from (n - 1) cs
      | None \<Rightarrow> c # replace_from 0 cs)"

definition strip_injected :: "jsstring \<Rightarrow> jsstring" where
  "strip_injected s = replace_from 0 s"

text \<open>
  The text of a message: \<open>content\<close> itself when it is a string, the texts of the
  blocks of an array that have a string under \<open>text\<close>, and the empty string
  otherwise. \<open>add_block\<close> is one round of the inner loop.
\<close>

fun has_prop :: "jsstring \<Rightarrow> jsval \<Rightarrow> bool" where
  "has_prop k (JObj kvs) = (k \<in> fst ` set kvs)"
| "has_prop k _ = False"

definition add_block :: "jsstring \<Rightarrow> jsval \<Rightarrow> jsstring" where
  "add_block textContent block =
     (if truthy block \<and> typeof block = TObject \<and> has_prop (js ''text'') block \<and>
         typeof (get_prop block (js ''text'')) = TString
      then (case get_prop block (js ''text'') of
              JStr t \<Rightarrow> textContent @ (if textContent \<noteq> [] then newline else []) @ t
            | _ \<Rightarrow> textContent)
      else textContent)"

definition message_text :: "jsval \<Rightarrow> jsstring" where
  "message_text c =
     (case c of JStr s \<Rightarrow> s | JArr blocks \<Rightarrow> foldl add_block [] blocks | _ \<Rightarrow> [])"

text \<open>
  One round of the loop over \<open>recentMessages\<close>: \<open>None\<close> where the source says
  \<open>continue\<close>, the item it pushes otherwise.
\<close>

definition is_role :: "jsval \<Rightarrow> bool" where
  "is_role r = (r = JStr (js ''user'') \<or> r = JStr (js ''assistant''))"

definition role_name :: "jsval \<Rightarrow> jsstring" where
  "role_name r = (case r of JStr s \<Rightarrow> s | _ \<Rightarrow> [])"

definition capture_item :: "jsval \<Rightarrow> CaptureItem option" where
  "capture_item msg =
     (if \<not> truthy msg \<or> typeof msg \<noteq> TObject then None
      else
        (let role = get_prop msg (js ''role'') in
         if \<not> is_role role then None
         else
           (let textContent = message_text (get_prop msg (js ''content'')) in
            if textContent = [] \<or> length textContent < 10 then None
            else
              (let textContent' =
                     (if str_includes OPEN_TAG textContent then trim (strip_injected textContent)
                      else textContent)
               in if str_includes OPEN_TAG textContent \<and>
                     (textContent' = [] \<or> length textContent' < 10)
                  then None
                  else Some
                    \<lparr>item_content = js ''['' @ role_name role @ js '']: '' @ textContent',
                     item_context = Some (if role = JStr (js ''user'') then js ''user message''
                                          else js ''assistant response'')\<rparr>))))"

fun capture_loop :: "jsval list \<Rightarrow> CaptureItem list \<Rightarrow> CaptureItem list" where
  "capture_loop [] items = items"
| "capture_loop (msg # msgs) items =
     capture_loop msgs (case capture_item msg of None \<Rightarrow> items | Some i \<Rightarrow> items @ [i])"







section \<open>What the host can ask of the plugin\<close>

datatype event =
    Memory_search jsstring "number option"
  | Memory_store jsstring "jsstring option"
  | Memory_get jsstring
  | Memory_list "number option"
  | Memory_forget "jsstring option" "jsstring option"
  | Before_agent_start "jsstring option"
  | Agent_end bool "jsval list option"

fun is_tool :: "event \<Rightarrow> bool" where
  "is_tool (Before_agent_start _) = False"
| "is_tool (Agent_end _ _) = False"
| "is_tool _ = True"

section \<open>Vocabulary of the properties\<close>

text \<open>The calls of \<open>fetch\<close> made between two states.\<close>

definition new_calls :: "state \<Rightarrow> state \<Rightarrow> fetch_call list" where
  "new_calls st st' = drop (length (trace st)) (trace st')"

text \<open>A call that ensures the bank of the configuration: a \<open>PUT\<close> on the bank.\<close>

definition is_ensure :: "jsstring PluginConfig \<Rightarrow> fetch_call \<Rightarrow> bool" where
  "is_ensure cfg c =
     (req_method c = js ''PUT'' \<and> req_url c = url (client_of cfg) (bank_path (bankId cfg)))"

text \<open>
  Data for the examples: the configuration of the defaults, a service that cannot be
  reached, and the two kinds of answer a service gives.
\<close>

definition default_config :: "jsstring PluginConfig" where
  "default_config =
     \<lparr>baseUrl = js ''http://127.0.0.1:8888'', bankId = js ''openclaw'', namespace = js ''default'',
      autoRecall = True, autoCapture = True, recallLimit = Fin 5, captureMaxMessages = Fin 10\<rparr>"

text \<open>The plugin registered with the configuration of the defaults.\<close>

definition initial_state :: state where
  "initial_state = register default_config"

definition fetch_failed :: js_error where
  "fetch_failed = JsError (js ''TypeError'') (js ''fetch failed'')"

definition unreachable :: remote where
  "unreachable =
     \<lparr>ensure_reply = (\<lambda>_. Rejects fetch_failed),
      retain_reply = (\<lambda>_. Rejects fetch_failed),
      recall_reply = (\<lambda>_. Rejects fetch_failed),
      list_reply = (\<lambda>_. Rejects fetch_failed),
      get_reply = (\<lambda>_. Rejects fetch_failed),
      delete_reply = (\<lambda>_. Rejects fetch_failed),
      health_reply = (\<lambda>_. Rejects fetch_failed),
      number_toString = (\<lambda>_. [])\<rparr>"

definition replies :: "'a \<Rightarrow> 'a fetch_outcome" where
  "replies x = Responds 200 (Inr []) (Inr x)"

definition refuses :: "nat \<Rightarrow> 'a fetch_outcome" where
  "refuses status = Responds status (Inr (js ''no'')) (Inl (JsError (js ''SyntaxError'') []))"

definition the_bank :: BankInfo where
  "the_bank = \<lparr>bank_id = js ''openclaw'', bank_name = js ''openclaw''\<rparr>"

definition memory :: "jsstring \<Rightarrow> jsstring \<Rightarrow> HindsightMemory" where
  "memory i t =
     \<lparr>m_id = i, m_text = t, m_type = World, m_entities = Absent, m_context = Absent,
      m_occurred_start = Absent, m_occurred_end = Absent, m_mentioned_at = Absent,
      m_document_id = Absent, m_score = None\<rparr>"

definition answers :: "HindsightMemory list \<Rightarrow> remote" where
  "answers ms =
     unreachable\<lparr>ensure_reply := (\<lambda>_. replies the_bank),
       recall_reply := (\<lambda>_. replies \<lparr>results = Some ms\<rparr>),
       delete_reply := (\<lambda>_. replies Null)\<rparr>"

definition oatmeal :: HindsightMemory where
  "oatmeal = memory (js ''a1b2c3d4e5'') (js ''User prefers oatmeal on weekdays'')"

definition porridge :: HindsightMemory where
  "porridge = memory (js ''f6a7b8c9d0'') (js ''User had porridge on Monday'')"

text \<open>Turns of a conversation, for the examples.\<close>

definition turn :: "jsstring \<Rightarrow> jsstring \<Rightarrow> jsval" where
  "turn role text = JObj [(js ''role'', JStr role), (js ''content'', JStr text)]"

definition ten_spaces :: jsval where
  "ten_spaces = turn (js ''user'') (js ''          '')"

definition reply_turn :: jsval where
  "reply_turn =
     turn (js ''assistant'')
       (js ''<relevant-memories>...</relevant-memories> Sure, I'll remember that.'')"

text \<open>
  The remote call each tool starts with, read off its \<open>execute\<close>: the recall of
  \<open>memory_search\<close>, the retain of \<open>memory_store\<close>, the reads of \<open>memory_get\<close> and
  \<open>memory_list\<close>, and for \<open>memory_forget\<close> the delete by id, the recall by query, or
  no call when it has neither.
\<close>

fun first_call :: "remote \<Rightarrow> jsstring PluginConfig \<Rightarrow> event \<Rightarrow> fetch_call option" where
  "first_call env cfg (Memory_search q l) =
     Some (issued (client_of cfg) (js ''POST'') (bank_path (bankId cfg) @ js ''/memories/recall'')
       (Some (JObj [(js ''query'', JStr q),
                    (js ''limit'', JNum (case l of None \<Rightarrow> recallLimit cfg | Some x \<Rightarrow> x))])))"
| "first_call env cfg (Memory_store t c) =
     Some (issued (client_of cfg) (js ''POST'') (bank_path (bankId cfg) @ js ''/memories'')
       (Some (JObj [(js ''items'', JArr [item_json \<lparr>item_content = t, item_context = c\<rparr>])])))"
| "first_call env cfg (Memory_get i) =
     Some (issued (client_of cfg) (js ''GET'') (bank_path (bankId cfg) @ js ''/memories/'' @ i) None)"
| "first_call env cfg (Memory_list l) =
     Some (issued (client_of cfg) (js ''GET'')
       (bank_path (bankId cfg) @ js ''/memories/list?limit='' @
        show_number env (case l of None \<Rightarrow> Fin 20 | Some x \<Rightarrow> x)) None)"
| "first_call env cfg (Memory_forget i q) =
     (if given i then
        Some (issued (client_of cfg) (js ''DELETE'')
          (bank_path (bankId cfg) @ js ''/memories/'' @ the i) None)
      else if given q then
        Some (issued (client_of cfg) (js ''POST'') (bank_path (bankId cfg) @ js ''/memories/recall'')
          (Some (JObj [(js ''query'', JStr (the q)), (js ''limit'', JNum (Fin 5))])))
      else None)"
| "first_call env cfg _ = None"

section \<open>Sanitizer: properties\<close>

lemma js_amp: "js ''&amp;'' = [0x26, 0x61, 0x6D, 0x70, 0x3B]"
  and js_lt: "js ''&lt;'' = [0x26, 0x6C, 0x74, 0x3B]"
  and js_gt: "js ''&gt;'' = [0x26, 0x67, 0x74, 0x3B]"
  and js_quot: "js ''&quot;'' = [0x26, 0x71, 0x75, 0x6F, 0x74, 0x3B]"
  and js_apos: "js ''&#39;'' = [0x26, 0x23, 0x33, 0x39, 0x3B]"
  by (simp_all add: js_def)

lemma escape_match_cases:
  "escape_match 0x26 = js ''&amp;''"
  "escape_match 0x3C = js ''&lt;''"
  "escape_match 0x3E = js ''&gt;''"
  "escape_match 0x22 = js ''&quot;''"
  "escape_match 0x27 = js ''&#39;''"
  by (simp_all add: escape_match_def PROMPT_ESCAPE_MAP_def js_def)

lemmas js_entities = js_amp js_lt js_gt js_quot js_apos

lemma escapeForPrompt_Nil: "escapeForPrompt [] = []"
  by (simp add: escapeForPrompt_def)

lemma escapeForPrompt_Cons:
  "escapeForPrompt (c # cs) =
     (if escape_class c then escape_match c else [c]) @ escapeForPrompt cs"
  by (simp add: escapeForPrompt_def)

lemma escape_class_cases:
  assumes "escape_class c"
  obtains "c = 0x26" | "c = 0x3C" | "c = 0x3E" | "c = 0x22" | "c = 0x27"
  using assms unfolding escape_class_def by blast

lemma well_escaped_token:
  assumes "well_escaped rest"
  shows "well_escaped ((if escape_class c then escape_match c else [c]) @ rest)"
proof (cases "escape_class c")
  case True
  then show ?thesis
    using assms
    by (elim escape_class_cases)
       (simp_all add: escape_class_def escape_match_cases js_entities starts_entity_def
          starts_with_def)
next
  case False
  then show ?thesis
    using assms by (simp add: escape_class_def)
qed

lemma decode_token:
  "decode_entities ((if escape_class c then escape_match c else [c]) @ rest) =
     c # decode_entities rest"
proof (cases "escape_class c")
  case True
  then show ?thesis
    by (elim escape_class_cases)
       (simp_all add: escape_class_def escape_match_cases js_entities starts_with_def)
next
  case False
  then have "c \<noteq> 0x26"
    by (simp add: escape_class_def)
  then show ?thesis
    using False by (simp add: js_entities starts_with_def)
qed

text \<open>
  C3. For every memory text, the output of the sanitizer holds none of the characters
  \<open>< > " '\<close>, holds \<open>&\<close> only as the first character of one of the five entities, and
  decoding the entities gives the text back.
\<close>

theorem escapeForPrompt_escapes_and_round_trips:
  "well_escaped (escapeForPrompt t) \<and> decode_entities (escapeForPrompt t) = t"
proof (induction t)
  case Nil
  show ?case by (simp add: escapeForPrompt_Nil)
next
  case (Cons c cs)
  have "well_escaped (escapeForPrompt (c # cs))"
    unfolding escapeForPrompt_Cons using Cons by (intro well_escaped_token) simp
  moreover have "decode_entities (escapeForPrompt (c # cs)) = c # cs"
    unfolding escapeForPrompt_Cons decode_token using Cons by simp
  ultimately show ?case by simp
qed

theorem escapeForPrompt_escapes_and_round_trips_witness:
  "escapeForPrompt (js ''a<b & 'c' '') = js ''a&lt;b &amp; &#39;c&#39; '' \<and>
   well_escaped (js ''a&lt;b &amp; &#39;c&#39; '') \<and>
   decode_entities (js ''a&lt;b &amp; &#39;c&#39; '') = js ''a<b & 'c' ''"
proof -
  have e: "escapeForPrompt (js ''a<b & 'c' '') = js ''a&lt;b &amp; &#39;c&#39; ''"
    by (simp add: escapeForPrompt_def escape_class_def escape_match_def PROMPT_ESCAPE_MAP_def
        js_def)
  show ?thesis
    using escapeForPrompt_escapes_and_round_trips [of "js ''a<b & 'c' ''"]
    unfolding e by (simp add: e)
qed

section \<open>Remote client: properties\<close>

text \<open>
  C4. \<open>ensureBank(bankId, mission?)\<close> of the client first issues the \<open>PUT\<close> with the
  object \<open>{ mission }\<close>. When that request succeeds its value is returned and nothing
  else is issued. When it fails, for whatever reason, exactly one more \<open>PUT\<close> is
  issued, with the empty object, and its outcome is the outcome of \<open>ensureBank\<close>: an
  error reaches the caller exactly when both requests fail.
\<close>

theorem client_ensureBank_retries_once:
  fixes c env bank mission st
  defines "n \<equiv> length (trace st)"
  defines "first \<equiv> settle (js ''PUT'') (bank_path bank) (ensure_reply env n)"
  defines "second \<equiv> settle (js ''PUT'') (bank_path bank) (ensure_reply env (Suc n))"
  defines "put1 \<equiv> issued c (js ''PUT'') (bank_path bank) (Some (mission_body mission))"
  defines "put2 \<equiv> issued c (js ''PUT'') (bank_path bank) (Some (JObj []))"
  shows "(\<forall>b. first = Inr b \<longrightarrow>
            client_ensureBank c env bank mission st = (Inr b, st\<lparr>trace := trace st @ [put1]\<rparr>)) \<and>
         (\<forall>e. first = Inl e \<longrightarrow>
            client_ensureBank c env bank mission st =
              (second, st\<lparr>trace := trace st @ [put1, put2]\<rparr>)) \<and>
         (isl (fst (client_ensureBank c env bank mission st)) \<longleftrightarrow> isl first \<and> isl second) \<and>
         req_body put1 =
           Some (JObj [(js ''mission'', case mission of None \<Rightarrow> Undefined | Some m \<Rightarrow> JStr m)]) \<and>
         req_body put2 = Some (JObj [])"
  unfolding n_def first_def second_def put1_def put2_def
  by (auto simp: client_ensureBank_def try_catch_def request_def issued_def mission_body_def
      split: sum.splits)

theorem client_ensureBank_retries_once_witness:
  "client_ensureBank (client_of default_config)
     (unreachable\<lparr>ensure_reply := (\<lambda>n. if n = 0 then refuses 422 else replies the_bank)\<rparr>)
     (js ''openclaw'') (Some MISSION) initial_state =
   (Inr the_bank,
    initial_state\<lparr>trace :=
      [issued (client_of default_config) (js ''PUT'') (bank_path (js ''openclaw''))
         (Some (mission_body (Some MISSION))),
       issued (client_of default_config) (js ''PUT'') (bank_path (js ''openclaw''))
         (Some (JObj []))]\<rparr>)"
  using client_ensureBank_retries_once [of "js ''openclaw''"
      "unreachable\<lparr>ensure_reply := (\<lambda>n. if n = 0 then refuses 422 else replies the_bank)\<rparr>"
      initial_state "client_of default_config" "Some MISSION"]
  by (simp add: initial_state_def register_def settle_def refuses_def replies_def ok_def)

text \<open>
  C9. \<open>health()\<close> never throws; it returns \<open>false\<close> exactly when the call of
  \<open>fetch\<close> on \<open>/health\<close> rejects, and \<open>true\<close> whenever the service responds, with
  whatever status.
\<close>

theorem health_false_only_when_fetch_throws:
  fixes c env st
  defines "outcome \<equiv> health_reply env (length (trace st))"
  shows "(\<exists>b. fst (health c env st) = Inr b) \<and>
         (fst (health c env st) = Inr False \<longleftrightarrow> (\<exists>e. outcome = Rejects e)) \<and>
         (\<forall>status txt json. outcome = Responds status txt json \<longrightarrow>
            fst (health c env st) = Inr True)"
  unfolding outcome_def by (auto simp: health_def Let_def split: fetch_outcome.splits)

theorem health_false_only_when_fetch_throws_witness:
  "fst (health (client_of default_config) (unreachable\<lparr>health_reply := (\<lambda>_. refuses 500)\<rparr>)
          initial_state) = Inr True \<and>
   fst (health (client_of default_config) unreachable initial_state) = Inr False"
  using health_false_only_when_fetch_throws
          [of "client_of default_config" "unreachable\<lparr>health_reply := (\<lambda>_. refuses 500)\<rparr>"
              initial_state]
        health_false_only_when_fetch_throws [of "client_of default_config" unreachable initial_state]
  by (simp add: refuses_def unreachable_def)

section \<open>The bank lifecycle and the calls of the client: lemmas\<close>

lemma ensureBank_cases:
  "ensureBank env cfg st =
     (if bankReady st then st
      else
        case settle (js ''PUT'') (bank_path (bankId cfg)) (ensure_reply env (length (trace st))) of
          Inr _ \<Rightarrow>
            st\<lparr>trace := trace st @
                 [issued (client_of cfg) (js ''PUT'') (bank_path (bankId cfg))
                    (Some (mission_body (Some MISSION)))],
               bankReady := True\<rparr>
        | Inl _ \<Rightarrow>
            (case settle (js ''PUT'') (bank_path (bankId cfg))
                    (ensure_reply env (Suc (length (trace st)))) of
               Inr _ \<Rightarrow>
                 st\<lparr>trace := trace st @
                      [issued (client_of cfg) (js ''PUT'') (bank_path (bankId cfg))
                         (Some (mission_body (Some MISSION))),
                       issued (client_of cfg) (js ''PUT'') (bank_path (bankId cfg))
                         (Some (JObj []))],
                    bankReady := True\<rparr>
             | Inl err \<Rightarrow>
                 st\<lparr>trace := trace st @
                      [issued (client_of cfg) (js ''PUT'') (bank_path (bankId cfg))
                         (Some (mission_body (Some MISSION))),
                       issued (client_of cfg) (js ''PUT'') (bank_path (bankId cfg))
                         (Some (JObj []))],
                    logged := logged st @
                      [(Warn, js ''memory-hindsight: failed to ensure bank: '' @
                          error_string err)]\<rparr>))"
  by (auto simp: ensureBank_def client_ensureBank_def try_catch_def request_def log_line_def
      split: sum.splits)

lemma ensureBank_trace:
  "\<exists>puts. trace (ensureBank env cfg st) = trace st @ puts \<and> (\<forall>c\<in>set puts. is_ensure cfg c)"
  unfolding ensureBank_cases by (auto simp: issued_def is_ensure_def split: sum.splits)

lemma js_PUT: "js ''PUT'' \<noteq> js ''POST''" "js ''PUT'' \<noteq> js ''DELETE''" "js ''PUT'' \<noteq> js ''GET''"
  by (simp_all add: js_def)

lemma recall_eq:
  "recall c env bank q l st =
     (settle (js ''POST'') (bank_path bank @ js ''/memories/recall'')
        (recall_reply env (length (trace st))),
      st\<lparr>trace := trace st @
        [issued c (js ''POST'') (bank_path bank @ js ''/memories/recall'')
           (Some (JObj [(js ''query'', JStr q), (js ''limit'', JNum l)]))]\<rparr>)"
  by (simp add: recall_def request_def)

lemma deleteMemory_eq:
  "deleteMemory c env bank i st =
     (case settle (js ''DELETE'') (bank_path bank @ js ''/memories/'' @ i)
             (delete_reply env (length (trace st))) of
        Inl e \<Rightarrow> Inl e | Inr _ \<Rightarrow> Inr (),
      st\<lparr>trace := trace st @
        [issued c (js ''DELETE'') (bank_path bank @ js ''/memories/'' @ i) None]\<rparr>)"
  by (simp add: deleteMemory_def request_def and_then_def return_value_def split: sum.splits)

lemma ensureBank_answers:
  "ensureBank (answers ms) default_config initial_state =
     initial_state\<lparr>trace := [issued (client_of default_config) (js ''PUT'')
        (bank_path (bankId default_config)) (Some (mission_body (Some MISSION)))],
       bankReady := True\<rparr>"
  by (simp add: ensureBank_cases initial_state_def register_def answers_def replies_def settle_def ok_def)

section \<open>\<open>memory_forget\<close>: properties\<close>

text \<open>
  C10. \<open>memory_forget\<close> called with neither a \<open>memoryId\<close> nor a \<open>query\<close> (each
  absent or empty) returns, without throwing, the result that asks for a parameter,
  with \<open>error: "missing_param"\<close> in its details. The only calls it makes are those of
  ensuring the bank: no recall (\<open>POST\<close>) and no delete (\<open>DELETE\<close>).
\<close>

theorem memory_forget_missing_param:
  assumes "\<not> given memoryId" and "\<not> given query"
  shows "fst (memory_forget env cfg memoryId query st) =
           Inr \<lparr>result_text = js ''Provide a memoryId or query.'',
                details = JObj [(js ''error'', JStr (js ''missing_param''))]\<rparr> \<and>
         (\<forall>c \<in> set (new_calls st (snd (memory_forget env cfg memoryId query st))).
            is_ensure cfg c \<and> req_method c \<noteq> js ''POST'' \<and> req_method c \<noteq> js ''DELETE'')"
proof -
  have "memory_forget env cfg memoryId query st =
          (Inr \<lparr>result_text = js ''Provide a memoryId or query.'',
                details = JObj [(js ''error'', JStr (js ''missing_param''))]\<rparr>,
           ensureBank env cfg st)"
    using assms by (simp add: memory_forget_def try_catch_def return_value_def)
  moreover obtain puts where "trace (ensureBank env cfg st) = trace st @ puts"
    and "\<forall>c\<in>set puts. is_ensure cfg c"
    using ensureBank_trace by blast
  ultimately show ?thesis by (auto simp: new_calls_def is_ensure_def js_PUT)
qed

theorem memory_forget_missing_param_witness:
  "fst (memory_forget unreachable default_config None (Some []) initial_state) =
     Inr \<lparr>result_text = js ''Provide a memoryId or query.'',
          details = JObj [(js ''error'', JStr (js ''missing_param''))]\<rparr> \<and>
   map req_method
     (new_calls initial_state
        (snd (memory_forget unreachable default_config None (Some []) initial_state))) =
     [js ''PUT'', js ''PUT'']"
proof -
  have "map req_method
     (new_calls initial_state
        (snd (memory_forget unreachable default_config None (Some []) initial_state))) =
     [js ''PUT'', js ''PUT'']"
    by (simp add: memory_forget_def given_def try_catch_def return_value_def ensureBank_cases
        initial_state_def register_def unreachable_def settle_def new_calls_def issued_def)
  then show ?thesis
    using memory_forget_missing_param [of None "Some []" unreachable default_config initial_state]
    by (simp add: given_def)
qed

text \<open>
  C2. \<open>memory_forget\<close> called with a query and no \<open>memoryId\<close>, after ensuring the
  bank, first recalls with limit 5. When the recall gives no memory, the result is
  none-found and nothing else is called. When it gives exactly one, the one further
  call is the \<open>DELETE\<close> of that memory, and when that succeeds the result reports the
  deletion. When it gives two or more, the result lists the candidates and the recall
  is the only call: nothing is deleted.
\<close>

theorem memory_forget_by_query:
  fixes env cfg memoryId q st
  assumes "\<not> given memoryId" and "q \<noteq> []"
  defines "st0 \<equiv> ensureBank env cfg st"
  defines "recall_path \<equiv> bank_path (bankId cfg) @ js ''/memories/recall''"
  defines "found \<equiv> settle (js ''POST'') recall_path (recall_reply env (length (trace st0)))"
  defines "recall_call \<equiv> issued (client_of cfg) (js ''POST'') recall_path
             (Some (JObj [(js ''query'', JStr q), (js ''limit'', JNum (Fin 5))]))"
  defines "out \<equiv> memory_forget env cfg memoryId (Some q) st"
  shows
    "take 1 (new_calls st0 (snd out)) = [recall_call] \<and>
     (\<forall>res. found = Inr res \<and> no_results (results res) \<longrightarrow>
        out = (Inr \<lparr>result_text = js ''No matching memories found.'',
                    details = JObj [(js ''found'', nat_json 0)]\<rparr>,
               st0\<lparr>trace := trace st0 @ [recall_call]\<rparr>)) \<and>
     (\<forall>res m. found = Inr res \<and> results res = Some [m] \<longrightarrow>
        new_calls st0 (snd out) =
          [recall_call,
           issued (client_of cfg) (js ''DELETE'')
             (bank_path (bankId cfg) @ js ''/memories/'' @ m_id m) None] \<and>
        (\<forall>v. settle (js ''DELETE'') (bank_path (bankId cfg) @ js ''/memories/'' @ m_id m)
                (delete_reply env (Suc (length (trace st0)))) = Inr v \<longrightarrow>
           fst out =
             Inr \<lparr>result_text = js ''Forgotten: '' @ [0x22] @ m_text m @ [0x22],
                  details = JObj [(js ''action'', JStr (js ''deleted'')),
                                  (js ''id'', JStr (m_id m))]\<rparr>)) \<and>
     (\<forall>res rs. found = Inr res \<and> results res = Some rs \<and> 2 \<le> length rs \<longrightarrow>
        out =
          (Inr \<lparr>result_text = js ''Found '' @ show_nat (length rs) @
                   js '' candidates. Specify memoryId:'' @ newline @
                   join newline
                     (map (\<lambda>r. js ''- ['' @ take 8 (m_id r) @ js ''] '' @ take 80 (m_text r)) rs),
                details = JObj
                  [(js ''action'', JStr (js ''candidates'')),
                   (js ''candidates'', JArr (map (\<lambda>r. JObj
                      [(js ''id'', JStr (m_id r)), (js ''text'', JStr (m_text r))]) rs))]\<rparr>,
           st0\<lparr>trace := trace st0 @ [recall_call]\<rparr>))"
proof -
  have out: "out =
    try_catch
      (and_then (recall (client_of cfg) env (bankId cfg) q (Fin 5))
         (\<lambda>result.
            if no_results (results result) then
              return_value
                \<lparr>result_text = js ''No matching memories found.'',
                 details = JObj [(js ''found'', nat_json 0)]\<rparr>
            else
              (let rs = the (results result) in
               if length rs = 1 then
                 and_then
                   (deleteMemory (client_of cfg) env (bankId cfg) (m_id (hd rs)))
                   (\<lambda>_. return_value
                      \<lparr>result_text = js ''Forgotten: '' @ [0x22] @ m_text (hd rs) @ [0x22],
                       details = JObj [(js ''action'', JStr (js ''deleted'')),
                                       (js ''id'', JStr (m_id (hd rs)))]\<rparr>)
               else
                 return_value
                   \<lparr>result_text = js ''Found '' @ show_nat (length rs) @
                      js '' candidates. Specify memoryId:'' @ newline @
                      join newline
                        (map (\<lambda>r. js ''- ['' @ take 8 (m_id r) @ js ''] '' @ take 80 (m_text r)) rs),
                    details = JObj
                      [(js ''action'', JStr (js ''candidates'')),
                       (js ''candidates'', JArr (map (\<lambda>r. JObj
                          [(js ''id'', JStr (m_id r)), (js ''text'', JStr (m_text r))]) rs))]\<rparr>)))
      (\<lambda>err. return_value (failed_result (js ''Memory forget failed: '') err))
      st0"
    using assms(1,2) unfolding out_def st0_def memory_forget_def by (simp add: given_def)
  have first: "take 1 (new_calls st0 (snd out)) = [recall_call]"
    unfolding out
    by (auto simp: try_catch_def and_then_def recall_eq deleteMemory_eq return_value_def
        new_calls_def recall_call_def recall_path_def Let_def split: sum.splits)
  have none: "out = (Inr \<lparr>result_text = js ''No matching memories found.'',
                    details = JObj [(js ''found'', nat_json 0)]\<rparr>,
               st0\<lparr>trace := trace st0 @ [recall_call]\<rparr>)"
    if "found = Inr res" "no_results (results res)" for res
    using that unfolding out found_def recall_path_def recall_call_def
    by (simp add: try_catch_def and_then_def recall_eq return_value_def)
  have one: "new_calls st0 (snd out) =
          [recall_call,
           issued (client_of cfg) (js ''DELETE'')
             (bank_path (bankId cfg) @ js ''/memories/'' @ m_id m) None] \<and>
        (\<forall>v. settle (js ''DELETE'') (bank_path (bankId cfg) @ js ''/memories/'' @ m_id m)
                (delete_reply env (Suc (length (trace st0)))) = Inr v \<longrightarrow>
           fst out =
             Inr \<lparr>result_text = js ''Forgotten: '' @ [0x22] @ m_text m @ [0x22],
                  details = JObj [(js ''action'', JStr (js ''deleted'')),
                                  (js ''id'', JStr (m_id m))]\<rparr>)"
    if "found = Inr res" "results res = Some [m]" for res m
    using that unfolding out found_def recall_path_def recall_call_def
    by (auto simp: try_catch_def and_then_def recall_eq deleteMemory_eq return_value_def
        no_results_def new_calls_def split: sum.splits)
  have many: "out =
          (Inr \<lparr>result_text = js ''Found '' @ show_nat (length rs) @
                   js '' candidates. Specify memoryId:'' @ newline @
                   join newline
                     (map (\<lambda>r. js ''- ['' @ take 8 (m_id r) @ js ''] '' @ take 80 (m_text r)) rs),
                details = JObj
                  [(js ''action'', JStr (js ''candidates'')),
                   (js ''candidates'', JArr (map (\<lambda>r. JObj
                      [(js ''id'', JStr (m_id r)), (js ''text'', JStr (m_text r))]) rs))]\<rparr>,
           st0\<lparr>trace := trace st0 @ [recall_call]\<rparr>)"
    if "found = Inr res" "results res = Some rs" "2 \<le> length rs" for res rs
  proof -
    have "rs \<noteq> []" "length rs \<noteq> 1" using that(3) by auto
    then show ?thesis
      using that(1,2) unfolding out found_def recall_path_def recall_call_def
      by (simp add: try_catch_def and_then_def recall_eq return_value_def no_results_def)
  qed
  show ?thesis
    using first none one many by blast
qed


theorem memory_forget_by_query_witness:
  "fst (memory_forget (answers [oatmeal]) default_config None (Some (js ''breakfast''))
          initial_state) =
     Inr \<lparr>result_text = js ''Forgotten: '' @ [0x22] @ m_text oatmeal @ [0x22],
          details = JObj [(js ''action'', JStr (js ''deleted'')), (js ''id'', JStr (m_id oatmeal))]\<rparr> \<and>
   map req_method
     (new_calls (ensureBank (answers [oatmeal]) default_config initial_state)
        (snd (memory_forget (answers [oatmeal]) default_config None (Some (js ''breakfast''))
           initial_state))) = [js ''POST'', js ''DELETE''] \<and>
   fst (memory_forget (answers []) default_config None (Some (js ''breakfast'')) initial_state) =
     Inr \<lparr>result_text = js ''No matching memories found.'',
          details = JObj [(js ''found'', nat_json 0)]\<rparr> \<and>
   map req_method
     (new_calls (ensureBank (answers [oatmeal, porridge]) default_config initial_state)
        (snd (memory_forget (answers [oatmeal, porridge]) default_config None
           (Some (js ''breakfast'')) initial_state))) = [js ''POST'']"
proof -
  have q: "\<not> given None" "js ''breakfast'' \<noteq> []"
    by (simp_all add: given_def js_def)
  have found: "settle (js ''POST'') (bank_path (bankId default_config) @ js ''/memories/recall'')
      (recall_reply (answers ms)
         (length (trace (ensureBank (answers ms) default_config initial_state)))) =
    Inr \<lparr>results = Some ms\<rparr>" for ms
    by (simp add: answers_def replies_def settle_def ok_def)
  have deleted: "settle (js ''DELETE'')
      (bank_path (bankId default_config) @ js ''/memories/'' @ m_id oatmeal)
      (delete_reply (answers ms)
         (Suc (length (trace (ensureBank (answers ms) default_config initial_state))))) =
    Inr Null" for ms
    by (simp add: answers_def replies_def settle_def ok_def)
  note one = memory_forget_by_query [OF q, of "answers [oatmeal]" default_config initial_state]
  note none = memory_forget_by_query [OF q, of "answers []" default_config initial_state]
  note two = memory_forget_by_query [OF q, of "answers [oatmeal, porridge]" default_config
      initial_state]
  note one' = one [THEN conjunct2, THEN conjunct2, THEN conjunct1, rule_format,
        of "\<lparr>results = Some [oatmeal]\<rparr>" oatmeal, OF conjI, OF found]
  have a: "fst (memory_forget (answers [oatmeal]) default_config None (Some (js ''breakfast''))
          initial_state) =
     Inr \<lparr>result_text = js ''Forgotten: '' @ [0x22] @ m_text oatmeal @ [0x22],
          details = JObj [(js ''action'', JStr (js ''deleted'')), (js ''id'', JStr (m_id oatmeal))]\<rparr>"
    by (rule one' [THEN conjunct2, rule_format, OF _ deleted]) simp
  have b: "map req_method
     (new_calls (ensureBank (answers [oatmeal]) default_config initial_state)
        (snd (memory_forget (answers [oatmeal]) default_config None (Some (js ''breakfast''))
           initial_state))) = [js ''POST'', js ''DELETE'']"
    by (subst one' [THEN conjunct1]) (simp_all add: issued_def)
  have c: "fst (memory_forget (answers []) default_config None (Some (js ''breakfast''))
      initial_state) =
     Inr \<lparr>result_text = js ''No matching memories found.'',
          details = JObj [(js ''found'', nat_json 0)]\<rparr>"
    by (subst none [THEN conjunct2, THEN conjunct1, rule_format, of "\<lparr>results = Some []\<rparr>",
          OF conjI, OF found])
       (simp_all add: no_results_def)
  have d: "map req_method
     (new_calls (ensureBank (answers [oatmeal, porridge]) default_config initial_state)
        (snd (memory_forget (answers [oatmeal, porridge]) default_config None
           (Some (js ''breakfast'')) initial_state))) = [js ''POST'']"
    by (subst two [THEN conjunct2, THEN conjunct2, THEN conjunct2, rule_format,
          of "\<lparr>results = Some [oatmeal, porridge]\<rparr>" "[oatmeal, porridge]",
          OF conjI, OF found])
       (simp_all add: new_calls_def issued_def)
  show ?thesis using a b c d by blast
qed

section \<open>Auto-recall: properties\<close>



section \<open>Config parser: properties\<close>

lemma get_prop_nullish:
  "get_prop (if raw = Undefined \<or> raw = Null then JObj [] else raw) k = get_prop raw k"
  by (cases raw) simp_all

text \<open>
  C6, as the specification states it, asks that the returned \<open>recallLimit\<close> and
  \<open>captureMaxMessages\<close> are always positive integers. \<open>parseConfig\<close> tests the type
  of the value only: a configured \<open>recallLimit\<close> of \<open>-3\<close> is returned as it is.
\<close>

theorem parseConfig_limits_not_validated:
  "\<not> positive_integer
       (recallLimit (parseConfig (JObj [(js ''recallLimit'', JNum (Fin (- 3)))])))"
  by (simp add: parseConfig_def positive_integer_def)

text \<open>
  C6, amended. \<open>parseConfig\<close> is defined on every value and has no failing branch.
  \<open>baseUrl\<close>, \<open>bankId\<close> and \<open>namespace\<close> are the configured value when it is truthy
  (of whatever type) and the default otherwise; \<open>autoRecall\<close> and \<open>autoCapture\<close> are
  true unless the configured value is exactly \<open>false\<close>; \<open>recallLimit\<close> and
  \<open>captureMaxMessages\<close> are 5 and 10 when the configured value is not of type number,
  and the configured number, unchanged, when it is.
\<close>

theorem parseConfig_defaults:
  fixes raw
  defines "field \<equiv> get_prop raw"
  shows
    "baseUrl (parseConfig raw) =
       (if truthy (field (js ''baseUrl'')) then field (js ''baseUrl'')
        else JStr (js ''http://127.0.0.1:8888'')) \<and>
     bankId (parseConfig raw) =
       (if truthy (field (js ''bankId'')) then field (js ''bankId'') else JStr (js ''openclaw'')) \<and>
     namespace (parseConfig raw) =
       (if truthy (field (js ''namespace'')) then field (js ''namespace'')
        else JStr (js ''default'')) \<and>
     (autoRecall (parseConfig raw) \<longleftrightarrow> field (js ''autoRecall'') \<noteq> JBool False) \<and>
     (autoCapture (parseConfig raw) \<longleftrightarrow> field (js ''autoCapture'') \<noteq> JBool False) \<and>
     (typeof (field (js ''recallLimit'')) \<noteq> TNumber \<longrightarrow> recallLimit (parseConfig raw) = Fin 5) \<and>
     (\<forall>n. field (js ''recallLimit'') = JNum n \<longrightarrow> recallLimit (parseConfig raw) = n) \<and>
     (typeof (field (js ''captureMaxMessages'')) \<noteq> TNumber \<longrightarrow>
        captureMaxMessages (parseConfig raw) = Fin 10) \<and>
     (\<forall>n. field (js ''captureMaxMessages'') = JNum n \<longrightarrow>
        captureMaxMessages (parseConfig raw) = n)"
  unfolding field_def
  by (simp add: parseConfig_def Let_def get_prop_nullish split: jsval.splits)

theorem parseConfig_defaults_witness:
  "parseConfig Undefined =
     \<lparr>baseUrl = JStr (js ''http://127.0.0.1:8888''), bankId = JStr (js ''openclaw''),
      namespace = JStr (js ''default''), autoRecall = True, autoCapture = True,
      recallLimit = Fin 5, captureMaxMessages = Fin 10\<rparr> \<and>
   recallLimit (parseConfig (JObj [(js ''recallLimit'', JStr (js ''7'')),
                                   (js ''captureMaxMessages'', JNum (Fin 0))])) = Fin 5 \<and>
   captureMaxMessages (parseConfig (JObj [(js ''recallLimit'', JStr (js ''7'')),
                                          (js ''captureMaxMessages'', JNum (Fin 0))])) = Fin 0"
proof -
  have a: "parseConfig Undefined =
     \<lparr>baseUrl = JStr (js ''http://127.0.0.1:8888''), bankId = JStr (js ''openclaw''),
      namespace = JStr (js ''default''), autoRecall = True, autoCapture = True,
      recallLimit = Fin 5, captureMaxMessages = Fin 10\<rparr>"
    using parseConfig_defaults [of Undefined] by (cases "parseConfig Undefined") simp
  have b: "recallLimit (parseConfig (JObj [(js ''recallLimit'', JStr (js ''7'')),
                                   (js ''captureMaxMessages'', JNum (Fin 0))])) = Fin 5 \<and>
   captureMaxMessages (parseConfig (JObj [(js ''recallLimit'', JStr (js ''7'')),
                                          (js ''captureMaxMessages'', JNum (Fin 0))])) = Fin 0"
    using parseConfig_defaults [of "JObj [(js ''recallLimit'', JStr (js ''7'')),
                                   (js ''captureMaxMessages'', JNum (Fin 0))]"]
    by (simp add: js_def)
  show ?thesis using a b by blast
qed

section \<open>Auto-capture: properties\<close>

lemma str_includes_length: "str_includes p s \<Longrightarrow> length p \<le> length s"
  by (induction s) (auto simp: starts_with_def dest: arg_cong [where f = length])

lemma capture_loop_concat:
  "capture_loop msgs items =
     items @ concat (map (\<lambda>m. case capture_item m of None \<Rightarrow> [] | Some i \<Rightarrow> [i]) msgs)"
  by (induction msgs arbitrary: items) (auto split: option.splits)



text \<open>
  C1, as the specification states it, asks that no item is derived from a text that is
  shorter than 10 characters after trimming. The handler trims only a text from which
  it has stripped an injected block: a turn of ten spaces, which is empty once
  trimmed, yields an item.
\<close>

theorem capture_item_untrimmed:
  "capture_loop [ten_spaces] [] =
     [\<lparr>item_content = js ''[user]:           '', item_context = Some (js ''user message'')\<rparr>] \<and>
   length (trim (strip_injected (js ''          ''))) < 10"
  by code_simp

text \<open>
  C1, amended. For a turn whose role is \<open>user\<close> or \<open>assistant\<close>, let \<open>t\<close> be its
  text (the string content, or the texts of its blocks) and \<open>t'\<close> be \<open>t\<close> itself
  when \<open>t\<close> does not contain \<open><relevant-memories>\<close>, and otherwise \<open>t\<close> with every
  injected block and the white space after it removed, then trimmed. The turn
  yields exactly one item, with \<open>t'\<close> behind the tag of the role, when \<open>t'\<close> has at
  least 10 characters, and no item otherwise; a turn adds its item, or nothing, between
  the items of the turns before it and those of the turns after it.
\<close>

theorem capture_item_threshold:
  fixes msg
  assumes "is_role (get_prop msg (js ''role''))"
  defines "t \<equiv> message_text (get_prop msg (js ''content''))"
  defines "t' \<equiv> (if str_includes OPEN_TAG t then trim (strip_injected t) else t)"
  shows
    "capture_item msg =
       (if 10 \<le> length t' then
          Some \<lparr>item_content = js ''['' @ role_name (get_prop msg (js ''role'')) @ js '']: '' @ t',
                item_context = Some (if get_prop msg (js ''role'') = JStr (js ''user'')
                                     then js ''user message'' else js ''assistant response'')\<rparr>
        else None) \<and>
     (\<forall>before after.
        capture_loop (before @ msg # after) [] =
          capture_loop before [] @
          (case capture_item msg of None \<Rightarrow> [] | Some i \<Rightarrow> [i]) @
          capture_loop after [])"
proof -
  have obj: "truthy msg \<and> typeof msg = TObject"
    using assms(1) by (cases msg) (simp_all add: is_role_def)
  have long: "10 \<le> length t" if "str_includes OPEN_TAG t"
    using str_includes_length [OF that] by (simp add: OPEN_TAG_def js_def)
  have item: "capture_item msg =
       (if 10 \<le> length t' then
          Some \<lparr>item_content = js ''['' @ role_name (get_prop msg (js ''role'')) @ js '']: '' @ t',
                item_context = Some (if get_prop msg (js ''role'') = JStr (js ''user'')
                                     then js ''user message'' else js ''assistant response'')\<rparr>
        else None)"
    using obj assms(1) long unfolding t'_def t_def capture_item_def Let_def
    by (auto simp: not_le)
  have loop: "capture_loop (before @ msg # after) [] =
          capture_loop before [] @
          (case capture_item msg of None \<Rightarrow> [] | Some i \<Rightarrow> [i]) @
          capture_loop after []" for before after
    by (simp add: capture_loop_concat [of _ "[]"])
  show ?thesis using item loop by blast
qed


theorem capture_item_threshold_witness:
  "capture_item reply_turn =
     Some \<lparr>item_content = js ''[assistant]: Sure, I'll remember that.'',
           item_context = Some (js ''assistant response'')\<rparr> \<and>
   capture_item (turn (js ''user'') (js ''ok, thanks'')) =
     Some \<lparr>item_content = js ''[user]: ok, thanks'', item_context = Some (js ''user message'')\<rparr> \<and>
   capture_item (turn (js ''user'') (js ''thanks!'')) =
     None"
proof -
  have r: "is_role (get_prop reply_turn (js ''role''))"
    "is_role (get_prop (turn (js ''user'') (js ''ok, thanks'')) (js ''role''))"
    "is_role (get_prop (turn (js ''user'') (js ''thanks!'')) (js ''role''))"
    by (simp_all add: is_role_def reply_turn_def turn_def)
  have t: "message_text (get_prop reply_turn (js ''content'')) =
      js ''<relevant-memories>...</relevant-memories> Sure, I'll remember that.''"
    "str_includes OPEN_TAG
       (js ''<relevant-memories>...</relevant-memories> Sure, I'll remember that.'')"
    "trim (strip_injected
       (js ''<relevant-memories>...</relevant-memories> Sure, I'll remember that.'')) =
     js ''Sure, I'll remember that.''"
    "get_prop reply_turn (js ''role'') = JStr (js ''assistant'')"
    "js ''assistant'' \<noteq> js ''user''"
    "js ''['' @ js ''assistant'' @ js '']: '' @ js ''Sure, I'll remember that.'' =
     js ''[assistant]: Sure, I'll remember that.''"
    "length (js ''Sure, I'll remember that.'') = 25"
    by (code_simp+)
  have u: "\<not> str_includes OPEN_TAG (js ''ok, thanks'')" "\<not> str_includes OPEN_TAG (js ''thanks!'')"
    "js ''['' @ js ''user'' @ js '']: '' @ js ''ok, thanks'' = js ''[user]: ok, thanks''"
    by (code_simp+)
  have a: "capture_item reply_turn =
     Some \<lparr>item_content = js ''[assistant]: Sure, I'll remember that.'',
           item_context = Some (js ''assistant response'')\<rparr>"
    using capture_item_threshold [OF r(1), THEN conjunct1]
    by (simp add: t role_name_def)
  have b: "capture_item (turn (js ''user'') (js ''ok, thanks'')) =
     Some \<lparr>item_content = js ''[user]: ok, thanks'', item_context = Some (js ''user message'')\<rparr>"
    using capture_item_threshold [OF r(2), THEN conjunct1]
    by (simp add: u role_name_def message_text_def turn_def) (simp add: js_def)
  have c: "capture_item (turn (js ''user'') (js ''thanks!'')) = None"
    using capture_item_threshold [OF r(3), THEN conjunct1]
    by (simp add: u role_name_def message_text_def turn_def) (simp add: js_def)
  show ?thesis using a b c by blast
qed




end
